theory Spec2Isabelle
  imports Complex_Main
begin

section \<open>The octahedron renderer of \<^verbatim>\<open>render_octahedra.py\<close>\<close>

text \<open>
  The script has one function, \<^verbatim>\<open>render(snapshot)\<close>, and four module-level values
  (\<^verbatim>\<open>device\<close>, \<^verbatim>\<open>tracer\<close>, \<^verbatim>\<open>FRESNEL_MIN_VERSION\<close>, \<^verbatim>\<open>FRESNEL_MAX_VERSION\<close>).
  Everything else is a call into fresnel, packaging, warnings or IPython. The model keeps
  the calls of the script as data: each constructor of the rendering library is a
  constructor of a datatype or a record holding the arguments the script passes, so that
  the scene handed to the path tracer can be inspected. Pixels are not modelled.

  Python floats are idealised as \<^typ>\<open>real\<close>: the model records which literal or
  which arithmetic expression the script passes, not how it is rounded.

  Exceptions are values: a computation that can raise has type \<open>py_error + 'a\<close>.
\<close>

subsection \<open>Python exceptions\<close>

datatype py_error = AttributeError | InvalidVersion | IndexError | ValueError

subsection \<open>Version strings (\<^verbatim>\<open>packaging.version\<close>)\<close>

text \<open>
  \<^verbatim>\<open>packaging.version.parse\<close> on the release-only fragment of PEP 440: one or more
  decimal numbers separated by dots, as in \<^verbatim>\<open>"0.13.0"\<close>. The parsed version is its
  release tuple. Other PEP 440 forms (epochs, pre-, post- and development releases, local
  labels) are not covered: \<open>parse\<close> answers \<open>InvalidVersion\<close> on every string outside the
  fragment, which is what packaging does on a string that is no version at all.
\<close>

type_synonym version = "nat list"

definition digit :: "char \<Rightarrow> nat option" where
  "digit c = (let n = (of_char c :: nat) in if 48 \<le> n \<and> n \<le> 57 then Some (n - 48) else None)"

fun number :: "nat \<Rightarrow> string \<Rightarrow> nat option" where
  "number acc [] = Some acc"
| "number acc (c # cs) = (case digit c of None \<Rightarrow> None | Some d \<Rightarrow> number (10 * acc + d) cs)"

fun split :: "char \<Rightarrow> string \<Rightarrow> string list" where
  "split sep [] = [[]]"
| "split sep (c # cs) =
     (if c = sep then [] # split sep cs
      else (case split sep cs of [] \<Rightarrow> [[c]] | w # ws \<Rightarrow> (c # w) # ws))"

fun release :: "string list \<Rightarrow> nat list option" where
  "release [] = Some []"
| "release (s # ss) =
     (if s = [] then None
      else (case number 0 s of None \<Rightarrow> None
            | Some n \<Rightarrow> (case release ss of None \<Rightarrow> None | Some ns \<Rightarrow> Some (n # ns))))"

definition parse :: "string \<Rightarrow> py_error + version" where
  "parse s = (case release (split (CHR ''.'') s) of None \<Rightarrow> Inl InvalidVersion | Some r \<Rightarrow> Inr r)"

text \<open>
  Versions compare by their keys. For release-only versions the key is the release tuple
  with its trailing zeros dropped, and Python compares tuples lexicographically, a proper
  prefix being smaller.
\<close>

definition cmpkey :: "version \<Rightarrow> nat list" where
  "cmpkey r = rev (dropWhile (\<lambda>x. x = 0) (rev r))"

fun tuple_lt :: "nat list \<Rightarrow> nat list \<Rightarrow> bool" where
  "tuple_lt [] [] = False"
| "tuple_lt [] (y # ys) = True"
| "tuple_lt (x # xs) [] = False"
| "tuple_lt (x # xs) (y # ys) = (x < y \<or> (x = y \<and> tuple_lt xs ys))"

definition version_lt :: "version \<Rightarrow> version \<Rightarrow> bool" where
  "version_lt a b = tuple_lt (cmpkey a) (cmpkey b)"

definition version_ge :: "version \<Rightarrow> version \<Rightarrow> bool" where
  "version_ge a b = (tuple_lt (cmpkey b) (cmpkey a) \<or> cmpkey a = cmpkey b)"

text \<open>Lines 11 and 12: the parsed bounds.\<close>

definition FRESNEL_MIN_VERSION :: version where
  "FRESNEL_MIN_VERSION = [0, 13, 0]"

definition FRESNEL_MAX_VERSION :: version where
  "FRESNEL_MAX_VERSION = [0, 14, 0]"

subsection \<open>The rendering library as seen by the script\<close>

text \<open>
  The imported module \<^verbatim>\<open>fresnel\<close>. The script reads one thing from it besides its
  constructors: \<^verbatim>\<open>fresnel.version.version\<close>. The field is \<open>None\<close> when the module has no
  attribute \<^verbatim>\<open>version\<close>; then \<^verbatim>\<open>'version' not in dir(fresnel)\<close> holds and the expression
  \<^verbatim>\<open>fresnel.version\<close> raises \<^verbatim>\<open>AttributeError\<close>.
\<close>

record fresnel_module =
  version :: "string option"

type_synonym vec3 = "real \<times> real \<times> real"
type_synonym quat = "real \<times> real \<times> real \<times> real"

datatype fresnel_device = Device

record tracer_path =
  tracer_device :: fresnel_device
  w :: nat
  h :: nat

datatype poly_info = convex_polyhedron_from_vertices (poly_vertices: "vec3 list")

datatype color = linear (srgb: "real list")

datatype material = Material (material_color: color) (roughness: real)

record convex_polyhedron =
  polyhedron_info :: poly_info
  geometry_N :: nat
  geometry_material :: material
  geometry_position :: "vec3 list"
  geometry_orientation :: "quat list"
  outline_width :: real

record box_geometry =
  box_dims :: "real list"
  box_radius :: real

datatype geometry = ConvexPolyhedron convex_polyhedron | Box box_geometry

datatype light = Light (direction: vec3) (light_color: vec3) (theta: real)

datatype camera =
  Orthographic (camera_position: vec3) (look_at: vec3) (up: vec3) (height: real)

record scene =
  scene_device :: fresnel_device
  scene_geometry :: "geometry list"
  lights :: "light list"
  scene_camera :: camera
  background_color :: vec3

text \<open>
  The result of \<^verbatim>\<open>tracer.sample(scene, samples=500)\<close>: an array of \<open>h\<close> by \<open>w\<close> pixels.
  The record keeps the call (the tracer's size, the scene, the sample count) in place of
  the pixels, which come from stochastic sampling.
\<close>

record image_array =
  image_w :: nat
  image_h :: nat
  image_samples :: nat
  image_scene :: scene

definition sample :: "tracer_path \<Rightarrow> scene \<Rightarrow> nat \<Rightarrow> image_array" where
  "sample t sc n = \<lparr>image_w = w t, image_h = h t, image_samples = n, image_scene = sc\<rparr>"

datatype png = repr_png (png_source: image_array)

datatype display_image = Image (image_data: png)

subsection \<open>The snapshot\<close>

record particles =
  N :: nat
  position :: "vec3 list"
  orientation :: "quat list"

record configuration =
  box :: "real list"

record snapshot =
  configuration :: configuration
  particles :: particles

subsection \<open>Indexing and slice assignment\<close>

text \<open>\<^verbatim>\<open>xs[0]\<close>: the first entry, \<^verbatim>\<open>IndexError\<close> on an empty sequence.\<close>

definition getitem0 :: "'a list \<Rightarrow> py_error + 'a" where
  "getitem0 xs = (case xs of [] \<Rightarrow> Inl IndexError | x # _ \<Rightarrow> Inr x)"

text \<open>
  \<^verbatim>\<open>dst[:] = src[:]\<close> where \<open>dst\<close> is a per-instance array of \<open>n\<close> rows: the array
  assignment of numpy. A source of \<open>n\<close> rows is copied row by row, a source of one row is
  broadcast to every row, and any other row count raises \<^verbatim>\<open>ValueError\<close>.
\<close>

definition assign_all :: "nat \<Rightarrow> 'a list \<Rightarrow> py_error + 'a list" where
  "assign_all n src =
     (if length src = n then Inr src
      else (case src of [x] \<Rightarrow> Inr (replicate n x) | _ \<Rightarrow> Inl ValueError))"

subsection \<open>Module-level values (lines 8 and 9)\<close>

definition device :: fresnel_device where
  "device = Device"

definition tracer :: tracer_path where
  "tracer = \<lparr>tracer_device = device, w = 300, h = 300\<rparr>"

subsection \<open>\<^verbatim>\<open>render\<close>, lines 16 to 21: the version check\<close>

text \<open>
  The condition of the \<^verbatim>\<open>if\<close>, with Python's short-circuit \<^verbatim>\<open>or\<close>: the attribute is
  read and parsed only when \<^verbatim>\<open>'version'\<close> is in \<^verbatim>\<open>dir(fresnel)\<close>.
\<close>

definition unsupported :: "fresnel_module \<Rightarrow> py_error + bool" where
  "unsupported fresnel =
     (case version fresnel of
        None \<Rightarrow> Inr True
      | Some s \<Rightarrow>
          (case parse s of
             Inl e \<Rightarrow> Inl e
           | Inr v \<Rightarrow> Inr (version_lt v FRESNEL_MIN_VERSION \<or> version_ge v FRESNEL_MAX_VERSION)))"

text \<open>
  The argument of \<^verbatim>\<open>warnings.warn\<close>: an f-string that reads
  \<^verbatim>\<open>fresnel.version.version\<close> again.
\<close>

definition warning_message :: "fresnel_module \<Rightarrow> py_error + string" where
  "warning_message fresnel =
     (case version fresnel of
        None \<Rightarrow> Inl AttributeError
      | Some s \<Rightarrow> Inr (''Unsupported fresnel version '' @ s @ '' - expect errors.''))"

text \<open>
  The check returns the warnings it has emitted, in order: \<^verbatim>\<open>warnings.warn\<close> adds its
  message to the list. The warning filters of the process are not modelled.
\<close>

definition check_version :: "fresnel_module \<Rightarrow> py_error + string list" where
  "check_version fresnel =
     (case unsupported fresnel of
        Inl e \<Rightarrow> Inl e
      | Inr False \<Rightarrow> Inr []
      | Inr True \<Rightarrow>
          (case warning_message fresnel of Inl e \<Rightarrow> Inl e | Inr msg \<Rightarrow> Inr [msg]))"

subsection \<open>\<^verbatim>\<open>render\<close>, lines 22 to 60: the scene\<close>

definition vertices :: "vec3 list" where
  "vertices =
     [(-0.5, 0, 0),
      (0.5, 0, 0),
      (0, -0.5, 0),
      (0, 0.5, 0),
      (0, 0, -0.5),
      (0, 0, 0.5)]"

definition build_scene :: "snapshot \<Rightarrow> py_error + scene" where
  "build_scene snapshot =
     (case getitem0 (box (configuration snapshot)) of
        Inl e \<Rightarrow> Inl e
      | Inr L \<Rightarrow>
          (case assign_all (N (particles snapshot)) (position (particles snapshot)) of
             Inl e \<Rightarrow> Inl e
           | Inr ps \<Rightarrow>
               (case assign_all (N (particles snapshot)) (orientation (particles snapshot)) of
                  Inl e \<Rightarrow> Inl e
                | Inr qs \<Rightarrow>
                    Inr \<lparr>scene_device = device,
                         scene_geometry =
                           [ConvexPolyhedron
                              \<lparr>polyhedron_info = convex_polyhedron_from_vertices vertices,
                               geometry_N = N (particles snapshot),
                               geometry_material = Material (linear [0.01, 0.74, 0.26]) 0.5,
                               geometry_position = ps,
                               geometry_orientation = qs,
                               outline_width = 0.01\<rparr>,
                            Box \<lparr>box_dims = box (configuration snapshot), box_radius = 0.02\<rparr>],
                         lights =
                           [Light (0, 0, 1) (0.5, 0.5, 0.5) pi,
                            Light (1, 1, 1) (1.1, 1.1, 1.1) (pi / 3)],
                         scene_camera =
                           Orthographic (L * 2, L, L * 2) (0, 0, 0) (0, 1, 0) (L * 1.4 + 1),
                         background_color = (1, 1, 1)\<rparr>)))"

subsection \<open>\<^verbatim>\<open>render\<close>\<close>

text \<open>
  The whole function: the warnings emitted and the image returned, or the exception
  raised. Line 61 samples the scene with the module's tracer.
\<close>

definition render :: "fresnel_module \<Rightarrow> snapshot \<Rightarrow> py_error + (string list \<times> display_image)" where
  "render fresnel snapshot =
     (case check_version fresnel of
        Inl e \<Rightarrow> Inl e
      | Inr ws \<Rightarrow>
          (case build_scene snapshot of
             Inl e \<Rightarrow> Inl e
           | Inr sc \<Rightarrow> Inr (ws, Image (repr_png (sample tracer sc 500)))))"

text \<open>The scene behind a returned image, and the primitives of a scene by kind.\<close>

definition sampled :: "display_image \<Rightarrow> image_array" where
  "sampled img = png_source (image_data img)"

definition scene_of :: "display_image \<Rightarrow> scene" where
  "scene_of img = image_scene (sampled img)"

fun polyhedra :: "geometry list \<Rightarrow> convex_polyhedron list" where
  "polyhedra [] = []"
| "polyhedra (ConvexPolyhedron g # gs) = g # polyhedra gs"
| "polyhedra (Box b # gs) = polyhedra gs"

fun boxes :: "geometry list \<Rightarrow> box_geometry list" where
  "boxes [] = []"
| "boxes (ConvexPolyhedron g # gs) = boxes gs"
| "boxes (Box b # gs) = b # boxes gs"

subsection \<open>Concrete inputs\<close>

text \<open>
  Two modules, one inside the supported range and one below it, and three snapshots: three
  particles in a box of sides 10, 12 and 14, the same particles in a box of sides 10, 3
  and 1, and an empty snapshot.
\<close>

definition fresnel_0_13_4 :: fresnel_module where
  "fresnel_0_13_4 = \<lparr>version = Some ''0.13.4''\<rparr>"

definition fresnel_0_12_0 :: fresnel_module where
  "fresnel_0_12_0 = \<lparr>version = Some ''0.12.0''\<rparr>"

definition three_particles :: snapshot where
  "three_particles =
     \<lparr>configuration = \<lparr>box = [10, 12, 14, 0, 0, 0]\<rparr>,
      particles = \<lparr>N = 3,
                   position = [(0, 0, 0), (1, 0, 0), (0, 2, 0)],
                   orientation = [(1, 0, 0, 0), (0, 1, 0, 0), (0, 0, 1, 0)]\<rparr>\<rparr>"

definition three_particles_flat :: snapshot where
  "three_particles_flat =
     \<lparr>configuration = \<lparr>box = [10, 3, 1, 0, 0, 0]\<rparr>,
      particles = \<lparr>N = 3,
                   position = [(0, 0, 0), (1, 0, 0), (0, 2, 0)],
                   orientation = [(1, 0, 0, 0), (0, 1, 0, 0), (0, 0, 1, 0)]\<rparr>\<rparr>"

definition no_particles :: snapshot where
  "no_particles =
     \<lparr>configuration = \<lparr>box = [10, 12, 14, 0, 0, 0]\<rparr>,
      particles = \<lparr>N = 0, position = [], orientation = []\<rparr>\<rparr>"

section \<open>Properties\<close>

subsection \<open>What a returning call has done\<close>

lemma render_Inr:
  "render fresnel snapshot = Inr (ws, img) \<Longrightarrow>
   check_version fresnel = Inr ws \<and> build_scene snapshot = Inr (scene_of img) \<and>
   sampled img = sample tracer (scene_of img) 500"
  by (auto simp: render_def scene_of_def sampled_def sample_def split: sum.splits)

lemma build_scene_box:
  "build_scene snapshot = Inr sc \<Longrightarrow> \<exists>L rest. box (configuration snapshot) = L # rest"
  by (auto simp: build_scene_def getitem0_def split: sum.splits list.splits)

lemma build_scene_camera:
  "build_scene snapshot = Inr sc \<Longrightarrow> box (configuration snapshot) = L # rest \<Longrightarrow>
   scene_camera sc = Orthographic (L * 2, L, L * 2) (0, 0, 0) (0, 1, 0) (L * 1.4 + 1)"
  by (auto simp: build_scene_def getitem0_def split: sum.splits)

lemma build_scene_lights:
  "build_scene snapshot = Inr sc \<Longrightarrow>
   lights sc = [Light (0, 0, 1) (0.5, 0.5, 0.5) pi, Light (1, 1, 1) (1.1, 1.1, 1.1) (pi / 3)]"
  by (auto simp: build_scene_def split: sum.splits)

lemma build_scene_geometry:
  "build_scene snapshot = Inr sc \<Longrightarrow>
   \<exists>ps qs. assign_all (N (particles snapshot)) (position (particles snapshot)) = Inr ps \<and>
     assign_all (N (particles snapshot)) (orientation (particles snapshot)) = Inr qs \<and>
     scene_geometry sc =
       [ConvexPolyhedron
          \<lparr>polyhedron_info = convex_polyhedron_from_vertices vertices,
           geometry_N = N (particles snapshot),
           geometry_material = Material (linear [0.01, 0.74, 0.26]) 0.5,
           geometry_position = ps,
           geometry_orientation = qs,
           outline_width = 0.01\<rparr>,
        Box \<lparr>box_dims = box (configuration snapshot), box_radius = 0.02\<rparr>]"
  by (auto simp: build_scene_def split: sum.splits)

lemma build_scene_rest:
  "build_scene snapshot = Inr sc \<Longrightarrow> background_color sc = (1, 1, 1) \<and> scene_device sc = device"
  by (auto simp: build_scene_def split: sum.splits)

lemma assign_all_same: "length src = n \<Longrightarrow> assign_all n src = Inr src"
  by (simp add: assign_all_def)

lemma build_scene_succeeds:
  "box (configuration snapshot) = L # rest \<Longrightarrow>
   length (position (particles snapshot)) = N (particles snapshot) \<Longrightarrow>
   length (orientation (particles snapshot)) = N (particles snapshot) \<Longrightarrow>
   \<exists>sc. build_scene snapshot = Inr sc"
  by (simp add: build_scene_def getitem0_def assign_all_def)

lemma check_version_present:
  "version fresnel = Some s \<Longrightarrow> parse s = Inr v \<Longrightarrow>
   check_version fresnel =
     Inr (if version_lt v FRESNEL_MIN_VERSION \<or> version_ge v FRESNEL_MAX_VERSION
          then [''Unsupported fresnel version '' @ s @ '' - expect errors.''] else [])"
  by (simp add: check_version_def unsupported_def warning_message_def)


lemma render_geometry:
  assumes "render fresnel snapshot = Inr (ws, img)"
  shows "\<exists>ps qs.
     assign_all (N (particles snapshot)) (position (particles snapshot)) = Inr ps \<and>
     assign_all (N (particles snapshot)) (orientation (particles snapshot)) = Inr qs \<and>
     scene_geometry (scene_of img) =
       [ConvexPolyhedron
          \<lparr>polyhedron_info = convex_polyhedron_from_vertices vertices,
           geometry_N = N (particles snapshot),
           geometry_material = Material (linear [0.01, 0.74, 0.26]) 0.5,
           geometry_position = ps,
           geometry_orientation = qs,
           outline_width = 0.01\<rparr>,
        Box \<lparr>box_dims = box (configuration snapshot), box_radius = 0.02\<rparr>]"
  using assms by (intro build_scene_geometry) (simp add: render_Inr)

subsection \<open>The concrete inputs evaluated\<close>

lemma check_version_0_13_4: "check_version fresnel_0_13_4 = Inr []"
  by (simp add: check_version_present [where s = "''0.13.4''" and v = "[0, 13, 4]"]
      fresnel_0_13_4_def parse_def digit_def version_lt_def version_ge_def cmpkey_def
      FRESNEL_MIN_VERSION_def FRESNEL_MAX_VERSION_def)

lemma check_version_0_12_0:
  "check_version fresnel_0_12_0 = Inr [''Unsupported fresnel version 0.12.0 - expect errors.'']"
  by (simp add: check_version_present [where s = "''0.12.0''" and v = "[0, 12, 0]"]
      fresnel_0_12_0_def parse_def digit_def version_lt_def version_ge_def cmpkey_def
      FRESNEL_MIN_VERSION_def FRESNEL_MAX_VERSION_def)

lemma build_scene_three_particles: "\<exists>sc. build_scene three_particles = Inr sc"
  by (rule build_scene_succeeds [where L = 10 and rest = "[12, 14, 0, 0, 0]"])
     (simp_all add: three_particles_def)

lemma render_three_particles:
  "\<exists>img. render fresnel_0_13_4 three_particles = Inr ([], img)"
  using build_scene_three_particles by (auto simp: render_def check_version_0_13_4)

lemma render_three_particles_warned:
  "\<exists>img. render fresnel_0_12_0 three_particles =
     Inr ([''Unsupported fresnel version 0.12.0 - expect errors.''], img)"
  using build_scene_three_particles by (auto simp: render_def check_version_0_12_0)

lemma build_scene_no_particles: "\<exists>sc. build_scene no_particles = Inr sc"
  by (rule build_scene_succeeds [where L = 10 and rest = "[12, 14, 0, 0, 0]"])
     (simp_all add: no_particles_def)

lemma build_scene_three_particles_flat: "\<exists>sc. build_scene three_particles_flat = Inr sc"
  by (rule build_scene_succeeds [where L = 10 and rest = "[3, 1, 0, 0, 0]"])
     (simp_all add: three_particles_flat_def)

lemma render_three_particles_flat:
  "\<exists>img. render fresnel_0_13_4 three_particles_flat = Inr ([], img)"
  using build_scene_three_particles_flat by (auto simp: render_def check_version_0_13_4)

subsection \<open>The version check\<close>

lemma parse_min: "parse ''0.13.0'' = Inr FRESNEL_MIN_VERSION"
  by (simp add: parse_def FRESNEL_MIN_VERSION_def digit_def)

lemma parse_max: "parse ''0.14.0'' = Inr FRESNEL_MAX_VERSION"
  by (simp add: parse_def FRESNEL_MAX_VERSION_def digit_def)

text \<open>
  C1. The claim says that the version check never raises and that a backend without a
  version attribute gets one warning and an image. On a module without the attribute the
  condition holds, and building the message of the warning reads
  \<^verbatim>\<open>fresnel.version.version\<close>: \<open>render\<close> raises \<open>AttributeError\<close>, for every snapshot,
  before any warning is emitted and before any scene is built.
\<close>

theorem render_without_version_raises:
  "render \<lparr>version = None\<rparr> snapshot = Inl AttributeError"
  by (simp add: render_def check_version_def unsupported_def warning_message_def)

subsection \<open>The scene is a function of the snapshot\<close>

text \<open>
  C2. Two calls of \<open>render\<close> whose snapshots carry the same box, the same \<open>N\<close> and
  the same position and orientation arrays hand the same scene to the tracer: the same
  geometry with its instance count, positions, orientations, material and outline width,
  the same box outline, lights, camera and background colour. The two calls may see
  different library versions and emit different warnings; nothing of that reaches the
  scene.
\<close>

theorem scene_depends_on_snapshot_only:
  assumes "render fresnel1 snapshot1 = Inr (ws1, img1)"
    and "render fresnel2 snapshot2 = Inr (ws2, img2)"
    and "box (configuration snapshot1) = box (configuration snapshot2)"
    and "N (particles snapshot1) = N (particles snapshot2)"
    and "position (particles snapshot1) = position (particles snapshot2)"
    and "orientation (particles snapshot1) = orientation (particles snapshot2)"
  shows "scene_of img1 = scene_of img2"
proof -
  have "build_scene snapshot1 = build_scene snapshot2"
    unfolding build_scene_def assms(3) assms(4) assms(5) assms(6) by (rule refl)
  moreover have "build_scene snapshot1 = Inr (scene_of img1)"
    using assms(1) by (simp add: render_Inr)
  moreover have "build_scene snapshot2 = Inr (scene_of img2)"
    using assms(2) by (simp add: render_Inr)
  ultimately show ?thesis by simp
qed

theorem scene_depends_on_snapshot_only_witness:
  "\<exists>img1 img2.
     render fresnel_0_13_4 three_particles = Inr ([], img1) \<and>
     render fresnel_0_12_0 three_particles =
       Inr ([''Unsupported fresnel version 0.12.0 - expect errors.''], img2) \<and>
     scene_of img1 = scene_of img2"
proof -
  obtain img1 where r1: "render fresnel_0_13_4 three_particles = Inr ([], img1)"
    using render_three_particles by blast
  obtain img2 where r2: "render fresnel_0_12_0 three_particles =
      Inr ([''Unsupported fresnel version 0.12.0 - expect errors.''], img2)"
    using render_three_particles_warned by blast
  have "scene_of img1 = scene_of img2"
    by (rule scene_depends_on_snapshot_only [OF r1 r2]) simp_all
  with r1 r2 show ?thesis by blast
qed

subsection \<open>Index correspondence\<close>

text \<open>
  C3. For a snapshot whose position and orientation arrays have \<open>N\<close> rows each, a call
  of \<open>render\<close> that returns has put one polyhedron geometry of \<open>N\<close> instances in the
  scene, whose per-instance arrays have \<open>N\<close> rows, and instance \<open>i\<close> carries position
  \<open>i\<close> and orientation \<open>i\<close> of the snapshot, for every \<open>i\<close> below \<open>N\<close>, in the
  snapshot's order.
\<close>

theorem instances_follow_snapshot:
  assumes "render fresnel snapshot = Inr (ws, img)"
    and "length (position (particles snapshot)) = N (particles snapshot)"
    and "length (orientation (particles snapshot)) = N (particles snapshot)"
  shows "\<exists>g. polyhedra (scene_geometry (scene_of img)) = [g] \<and>
     geometry_N g = N (particles snapshot) \<and>
     length (geometry_position g) = N (particles snapshot) \<and>
     length (geometry_orientation g) = N (particles snapshot) \<and>
     (\<forall>i < N (particles snapshot).
        geometry_position g ! i = position (particles snapshot) ! i \<and>
        geometry_orientation g ! i = orientation (particles snapshot) ! i)"
proof -
  obtain ps qs where
    ps: "assign_all (N (particles snapshot)) (position (particles snapshot)) = Inr ps" and
    qs: "assign_all (N (particles snapshot)) (orientation (particles snapshot)) = Inr qs" and
    g: "scene_geometry (scene_of img) =
       [ConvexPolyhedron
          \<lparr>polyhedron_info = convex_polyhedron_from_vertices vertices,
           geometry_N = N (particles snapshot),
           geometry_material = Material (linear [0.01, 0.74, 0.26]) 0.5,
           geometry_position = ps,
           geometry_orientation = qs,
           outline_width = 0.01\<rparr>,
        Box \<lparr>box_dims = box (configuration snapshot), box_radius = 0.02\<rparr>]"
    using render_geometry [OF assms(1)] by blast
  have "ps = position (particles snapshot)"
    using ps assms(2) by (simp add: assign_all_same)
  moreover have "qs = orientation (particles snapshot)"
    using qs assms(3) by (simp add: assign_all_same)
  ultimately show ?thesis
    using g assms(2,3) by simp
qed

theorem instances_follow_snapshot_witness:
  "\<exists>img g. render fresnel_0_13_4 three_particles = Inr ([], img) \<and>
     polyhedra (scene_geometry (scene_of img)) = [g] \<and>
     geometry_N g = 3 \<and>
     geometry_position g ! 0 = (0, 0, 0) \<and>
     geometry_position g ! 1 = (1, 0, 0) \<and>
     geometry_position g ! 2 = (0, 2, 0) \<and>
     geometry_orientation g ! 0 = (1, 0, 0, 0) \<and>
     geometry_orientation g ! 1 = (0, 1, 0, 0) \<and>
     geometry_orientation g ! 2 = (0, 0, 1, 0)"
proof -
  obtain img where r: "render fresnel_0_13_4 three_particles = Inr ([], img)"
    using render_three_particles by blast
  have "length (position (particles three_particles)) = N (particles three_particles)"
    and "length (orientation (particles three_particles)) = N (particles three_particles)"
    by (simp_all add: three_particles_def)
  from instances_follow_snapshot [OF r this] obtain g where
    g: "polyhedra (scene_geometry (scene_of img)) = [g]"
      "geometry_N g = N (particles three_particles)"
      "\<forall>i < N (particles three_particles).
        geometry_position g ! i = position (particles three_particles) ! i \<and>
        geometry_orientation g ! i = orientation (particles three_particles) ! i"
    by blast
  have n: "N (particles three_particles) = 3"
    by (simp add: three_particles_def)
  have "geometry_position g ! 0 = (0, 0, 0)" "geometry_position g ! 1 = (1, 0, 0)"
    "geometry_position g ! 2 = (0, 2, 0)" "geometry_orientation g ! 0 = (1, 0, 0, 0)"
    "geometry_orientation g ! 1 = (0, 1, 0, 0)" "geometry_orientation g ! 2 = (0, 0, 1, 0)"
    using g(3) by (simp_all add: three_particles_def)
  with r g(1,2) n show ?thesis by auto
qed

subsection \<open>The camera\<close>

text \<open>
  C4. For a snapshot whose box starts with the length \<open>L\<close>, a call of \<open>render\<close> that
  returns has attached an orthographic camera at \<open>(2L, L, 2L)\<close> that looks at the
  origin, with up-vector \<open>(0, 1, 0)\<close> and height \<open>1.4 L + 1\<close>.
\<close>

theorem camera_from_box_length:
  assumes "render fresnel snapshot = Inr (ws, img)"
    and "box (configuration snapshot) = L # rest"
  shows "scene_camera (scene_of img) =
     Orthographic (2 * L, L, 2 * L) (0, 0, 0) (0, 1, 0) (1.4 * L + 1)"
proof -
  have "build_scene snapshot = Inr (scene_of img)"
    using assms(1) by (simp add: render_Inr)
  from build_scene_camera [OF this assms(2)] show ?thesis
    by (simp add: mult.commute)
qed

theorem camera_from_box_length_witness:
  "\<exists>img. render fresnel_0_13_4 three_particles = Inr ([], img) \<and>
     box (configuration three_particles) = 10 # [12, 14, 0, 0, 0] \<and>
     scene_camera (scene_of img) = Orthographic (20, 10, 20) (0, 0, 0) (0, 1, 0) 15"
proof -
  obtain img where r: "render fresnel_0_13_4 three_particles = Inr ([], img)"
    using render_three_particles by blast
  have b: "box (configuration three_particles) = 10 # [12, 14, 0, 0, 0]"
    by (simp add: three_particles_def)
  from camera_from_box_length [OF r b]
  have "scene_camera (scene_of img) = Orthographic (20, 10, 20) (0, 0, 0) (0, 1, 0) 15"
    by simp
  with r b show ?thesis by blast
qed

subsection \<open>The lights\<close>

text \<open>
  C5. A call of \<open>render\<close> that returns has attached exactly two lights, in this order:
  one along \<open>+Z\<close> of colour \<open>(0.5, 0.5, 0.5)\<close> and half-angle \<open>\<pi>\<close>, and one along
  \<open>(1, 1, 1)\<close> of colour \<open>(1.1, 1.1, 1.1)\<close> and half-angle \<open>\<pi> / 3\<close>. The list does
  not mention the snapshot.
\<close>

theorem two_fixed_lights:
  assumes "render fresnel snapshot = Inr (ws, img)"
  shows "lights (scene_of img) =
     [Light (0, 0, 1) (0.5, 0.5, 0.5) pi, Light (1, 1, 1) (1.1, 1.1, 1.1) (pi / 3)]"
proof -
  have "build_scene snapshot = Inr (scene_of img)"
    using assms by (simp add: render_Inr)
  then show ?thesis by (rule build_scene_lights)
qed

theorem two_fixed_lights_witness:
  "\<exists>img. render fresnel_0_13_4 three_particles = Inr ([], img) \<and>
     length (lights (scene_of img)) = 2 \<and>
     lights (scene_of img) =
       [Light (0, 0, 1) (0.5, 0.5, 0.5) pi, Light (1, 1, 1) (1.1, 1.1, 1.1) (pi / 3)]"
proof -
  obtain img where r: "render fresnel_0_13_4 three_particles = Inr ([], img)"
    using render_three_particles by blast
  from two_fixed_lights [OF r] r show ?thesis by simp
qed

subsection \<open>Material and outlines\<close>

text \<open>
  C6. A call of \<open>render\<close> that returns has one polyhedron geometry in the scene; its
  material, shared by all its instances, has the colour \<open>linear [0.01, 0.74, 0.26]\<close> and
  roughness \<open>0.5\<close>, and its outline width is \<open>0.01\<close>. The scene has one box outline,
  built from the snapshot's whole box with radius \<open>0.02\<close>.
\<close>

theorem material_and_outlines:
  assumes "render fresnel snapshot = Inr (ws, img)"
  shows "\<exists>g. polyhedra (scene_geometry (scene_of img)) = [g] \<and>
     geometry_material g = Material (linear [0.01, 0.74, 0.26]) 0.5 \<and>
     outline_width g = 0.01 \<and>
     boxes (scene_geometry (scene_of img)) =
       [\<lparr>box_dims = box (configuration snapshot), box_radius = 0.02\<rparr>]"
  using render_geometry [OF assms] by auto

theorem material_and_outlines_witness:
  "\<exists>img g. render fresnel_0_13_4 three_particles = Inr ([], img) \<and>
     polyhedra (scene_geometry (scene_of img)) = [g] \<and>
     geometry_material g = Material (linear [0.01, 0.74, 0.26]) 0.5 \<and>
     outline_width g = 0.01 \<and>
     boxes (scene_geometry (scene_of img)) =
       [\<lparr>box_dims = [10, 12, 14, 0, 0, 0], box_radius = 0.02\<rparr>]"
proof -
  obtain img where r: "render fresnel_0_13_4 three_particles = Inr ([], img)"
    using render_three_particles by blast
  from material_and_outlines [OF r] r show ?thesis
    by (auto simp: three_particles_def)
qed

subsection \<open>Output size and sampling\<close>

text \<open>
  C7. The image that \<open>render\<close> returns comes from the module's tracer, 300 pixels wide
  and 300 high, sampled 500 times per pixel, whatever the snapshot.
\<close>

theorem output_size_and_samples:
  assumes "render fresnel snapshot = Inr (ws, img)"
  shows "image_w (sampled img) = 300 \<and> image_h (sampled img) = 300 \<and>
     image_samples (sampled img) = 500"
  using render_Inr [OF assms] by (simp add: sample_def tracer_def)

theorem output_size_and_samples_witness:
  "\<exists>img. render fresnel_0_13_4 three_particles = Inr ([], img) \<and>
     image_w (sampled img) = 300 \<and> image_h (sampled img) = 300 \<and>
     image_samples (sampled img) = 500"
proof -
  obtain img where r: "render fresnel_0_13_4 three_particles = Inr ([], img)"
    using render_three_particles by blast
  from output_size_and_samples [OF r] r show ?thesis by blast
qed

subsection \<open>The polyhedron template\<close>

text \<open>
  C8. A call of \<open>render\<close> that returns has built the descriptor of its polyhedron
  geometry from the list \<open>vertices\<close>, which holds the six points at distance \<open>0.5\<close> from
  the origin on the three axes, whatever the snapshot. The list is a fresh value of every
  call and no statement of \<open>render\<close> writes to it.
\<close>

theorem octahedron_template:
  assumes "render fresnel snapshot = Inr (ws, img)"
  shows "\<exists>g. polyhedra (scene_geometry (scene_of img)) = [g] \<and>
     polyhedron_info g = convex_polyhedron_from_vertices vertices \<and>
     vertices =
       [(- 0.5, 0, 0), (0.5, 0, 0), (0, - 0.5, 0), (0, 0.5, 0), (0, 0, - 0.5), (0, 0, 0.5)] \<and>
     length vertices = 6"
  using render_geometry [OF assms] by (auto simp: vertices_def)

theorem octahedron_template_witness:
  "\<exists>img g. render fresnel_0_13_4 three_particles = Inr ([], img) \<and>
     polyhedra (scene_geometry (scene_of img)) = [g] \<and>
     poly_vertices (polyhedron_info g) =
       [(- 0.5, 0, 0), (0.5, 0, 0), (0, - 0.5, 0), (0, 0.5, 0), (0, 0, - 0.5), (0, 0, 0.5)]"
proof -
  obtain img where r: "render fresnel_0_13_4 three_particles = Inr ([], img)"
    using render_three_particles by blast
  from octahedron_template [OF r] r show ?thesis by auto
qed

subsection \<open>The empty snapshot\<close>

text \<open>
  Where the version check passes: for a snapshot with \<open>N = 0\<close> and empty position and
  orientation arrays, a box with a first entry, and a library whose version string is
  present and parses, \<open>render\<close> returns a 300 by 300 image of a scene that holds a
  polyhedron geometry of no instances, the box outline and the white background.
\<close>

lemma empty_snapshot_returns_with_version:
  assumes "version fresnel = Some s"
    and "parse s = Inr v"
    and "box (configuration snapshot) = L # rest"
    and "N (particles snapshot) = 0"
    and "position (particles snapshot) = []"
    and "orientation (particles snapshot) = []"
  shows "\<exists>ws img g b. render fresnel snapshot = Inr (ws, img) \<and>
     scene_geometry (scene_of img) = [ConvexPolyhedron g, Box b] \<and>
     geometry_N g = 0 \<and> geometry_position g = [] \<and> geometry_orientation g = [] \<and>
     box_dims b = box (configuration snapshot) \<and>
     background_color (scene_of img) = (1, 1, 1) \<and>
     image_w (sampled img) = 300 \<and> image_h (sampled img) = 300"
proof -
  obtain ws where ws: "check_version fresnel = Inr ws"
    using check_version_present [OF assms(1,2)] by simp
  obtain sc where sc: "build_scene snapshot = Inr sc"
    using build_scene_succeeds [OF assms(3)] assms(4-6) by auto
  define img where "img = Image (repr_png (sample tracer sc 500))"
  have r: "render fresnel snapshot = Inr (ws, img)"
    by (simp add: render_def ws sc img_def)
  have so: "scene_of img = sc"
    by (simp add: img_def scene_of_def sampled_def sample_def)
  obtain ps qs where
    ps: "assign_all (N (particles snapshot)) (position (particles snapshot)) = Inr ps" and
    qs: "assign_all (N (particles snapshot)) (orientation (particles snapshot)) = Inr qs" and
    g: "scene_geometry sc =
       [ConvexPolyhedron
          \<lparr>polyhedron_info = convex_polyhedron_from_vertices vertices,
           geometry_N = N (particles snapshot),
           geometry_material = Material (linear [0.01, 0.74, 0.26]) 0.5,
           geometry_position = ps,
           geometry_orientation = qs,
           outline_width = 0.01\<rparr>,
        Box \<lparr>box_dims = box (configuration snapshot), box_radius = 0.02\<rparr>]"
    using build_scene_geometry [OF sc] by blast
  have "ps = []" "qs = []"
    using ps qs assms(4-6) by (simp_all add: assign_all_def)
  with g assms(4) have
    "\<exists>g b. scene_geometry sc = [ConvexPolyhedron g, Box b] \<and>
       geometry_N g = 0 \<and> geometry_position g = [] \<and> geometry_orientation g = [] \<and>
       box_dims b = box (configuration snapshot)"
    by simp
  moreover have "background_color sc = (1, 1, 1)"
    using build_scene_rest [OF sc] by simp
  moreover have "image_w (sampled img) = 300 \<and> image_h (sampled img) = 300"
    by (simp add: img_def sampled_def sample_def tracer_def)
  ultimately show ?thesis
    using r so by auto
qed

lemma empty_snapshot_returns_0_12_0:
  "version fresnel_0_12_0 = Some ''0.12.0'' \<and> parse ''0.12.0'' = Inr [0, 12, 0] \<and>
   box (configuration no_particles) = 10 # [12, 14, 0, 0, 0] \<and>
   N (particles no_particles) = 0 \<and>
   position (particles no_particles) = [] \<and> orientation (particles no_particles) = [] \<and>
   (\<exists>ws img g b. render fresnel_0_12_0 no_particles = Inr (ws, img) \<and>
     scene_geometry (scene_of img) = [ConvexPolyhedron g, Box b] \<and>
     geometry_N g = 0 \<and> geometry_position g = [] \<and> geometry_orientation g = [] \<and>
     box_dims b = [10, 12, 14, 0, 0, 0] \<and>
     background_color (scene_of img) = (1, 1, 1) \<and>
     image_w (sampled img) = 300 \<and> image_h (sampled img) = 300)"
proof -
  have a: "version fresnel_0_12_0 = Some ''0.12.0''"
    by (simp add: fresnel_0_12_0_def)
  have b: "parse ''0.12.0'' = Inr [0, 12, 0]"
    by (simp add: parse_def digit_def)
  have c: "box (configuration no_particles) = 10 # [12, 14, 0, 0, 0]"
    and d: "N (particles no_particles) = 0"
    and e: "position (particles no_particles) = []"
    and f: "orientation (particles no_particles) = []"
    by (simp_all add: no_particles_def)
  from empty_snapshot_returns_with_version [OF a b c d e f] a b c d e f show ?thesis
    by simp
qed

text \<open>
  C9. The claim says that \<open>render\<close> completes without raising on every snapshot with
  \<open>N = 0\<close> and empty position and orientation arrays. On the empty snapshot and a
  library module without a version attribute it does not: the version check raises
  \<open>AttributeError\<close> while building the message of its warning, before the empty geometry
  is ever created, and no image is returned.
\<close>

theorem render_empty_snapshot_without_version_raises:
  "N (particles no_particles) = 0 \<and> position (particles no_particles) = [] \<and>
   orientation (particles no_particles) = [] \<and>
   render \<lparr>version = None\<rparr> no_particles = Inl AttributeError"
  by (simp add: no_particles_def render_def check_version_def unsupported_def
      warning_message_def)

subsection \<open>The camera reads the first box entry only\<close>

text \<open>
  C10. Two calls of \<open>render\<close> that return, on snapshots whose boxes start with the
  same length \<open>L\<close>, have attached equal cameras, whatever the remaining box entries are,
  while the box outline of each scene is built from the whole box of its snapshot.
\<close>

theorem camera_ignores_other_box_components:
  assumes "render fresnel1 snapshot1 = Inr (ws1, img1)"
    and "render fresnel2 snapshot2 = Inr (ws2, img2)"
    and "box (configuration snapshot1) = L # rest1"
    and "box (configuration snapshot2) = L # rest2"
  shows "scene_camera (scene_of img1) = scene_camera (scene_of img2) \<and>
     boxes (scene_geometry (scene_of img1)) = [\<lparr>box_dims = L # rest1, box_radius = 0.02\<rparr>] \<and>
     boxes (scene_geometry (scene_of img2)) = [\<lparr>box_dims = L # rest2, box_radius = 0.02\<rparr>]"
proof -
  have "build_scene snapshot1 = Inr (scene_of img1)"
    using assms(1) by (simp add: render_Inr)
  from build_scene_camera [OF this assms(3)]
  have c1: "scene_camera (scene_of img1) =
      Orthographic (L * 2, L, L * 2) (0, 0, 0) (0, 1, 0) (L * 1.4 + 1)" .
  have "build_scene snapshot2 = Inr (scene_of img2)"
    using assms(2) by (simp add: render_Inr)
  from build_scene_camera [OF this assms(4)]
  have c2: "scene_camera (scene_of img2) =
      Orthographic (L * 2, L, L * 2) (0, 0, 0) (0, 1, 0) (L * 1.4 + 1)" .
  have b1: "boxes (scene_geometry (scene_of img1)) =
      [\<lparr>box_dims = L # rest1, box_radius = 0.02\<rparr>]"
    using render_geometry [OF assms(1)] assms(3) by auto
  have b2: "boxes (scene_geometry (scene_of img2)) =
      [\<lparr>box_dims = L # rest2, box_radius = 0.02\<rparr>]"
    using render_geometry [OF assms(2)] assms(4) by auto
  from c1 c2 b1 b2 show ?thesis by simp
qed

theorem camera_ignores_other_box_components_witness:
  "\<exists>img1 img2.
     render fresnel_0_13_4 three_particles = Inr ([], img1) \<and>
     render fresnel_0_13_4 three_particles_flat = Inr ([], img2) \<and>
     box (configuration three_particles) = 10 # [12, 14, 0, 0, 0] \<and>
     box (configuration three_particles_flat) = 10 # [3, 1, 0, 0, 0] \<and>
     scene_camera (scene_of img1) = scene_camera (scene_of img2) \<and>
     boxes (scene_geometry (scene_of img1)) \<noteq> boxes (scene_geometry (scene_of img2))"
proof -
  obtain img1 where r1: "render fresnel_0_13_4 three_particles = Inr ([], img1)"
    using render_three_particles by blast
  obtain img2 where r2: "render fresnel_0_13_4 three_particles_flat = Inr ([], img2)"
    using render_three_particles_flat by blast
  have b1: "box (configuration three_particles) = 10 # [12, 14, 0, 0, 0]"
    by (simp add: three_particles_def)
  have b2: "box (configuration three_particles_flat) = 10 # [3, 1, 0, 0, 0]"
    by (simp add: three_particles_flat_def)
  from camera_ignores_other_box_components [OF r1 r2 b1 b2]
  have "scene_camera (scene_of img1) = scene_camera (scene_of img2) \<and>
     boxes (scene_geometry (scene_of img1)) \<noteq> boxes (scene_geometry (scene_of img2))"
    by simp
  with r1 r2 b1 b2 show ?thesis by blast
qed

end
